theory Spec2Isabelle
  imports Complex_Main
begin

section \<open>Data model\<close>

text \<open>
  The template parameter \<open>Real\<close> of \<open>ChVector\<close>, \<open>ChQuaternion\<close> and \<open>ChCoordsys\<close> is
  read as the type of real numbers: all statements below are about exact arithmetic.
  A vector has three components, a quaternion four (\<open>e0\<close> the scalar part), and a
  coordinate system (a pose) is a position \<open>pos\<close> with an orientation \<open>rot\<close>
  (ChCoordsys.h, lines 40-41).
\<close>

datatype ChVector = ChVector (vx: real) (vy: real) (vz: real)

datatype ChQuaternion = ChQuaternion (e0: real) (e1: real) (e2: real) (e3: real)

record ChCoordsys =
  pos :: ChVector
  rot :: ChQuaternion

section \<open>Vector and quaternion primitives\<close>

text \<open>
  The headers ChVector.h and ChQuaternion.h are not among the sources. The spec lists for
  Vector3 "arithmetic, dot/cross, normalization" and for Quaternion "composition,
  rotate/rotate-back, conjugate"; each definition of this section is one of these
  operations, under the name the calling code uses.
\<close>

text \<open>Modelled from the spec: the sum of two vectors (\<open>operator+\<close> of the absent ChVector.h).\<close>

definition Vadd :: "ChVector \<Rightarrow> ChVector \<Rightarrow> ChVector" where
  "Vadd a b = ChVector (vx a + vx b) (vy a + vy b) (vz a + vz b)"

text \<open>Modelled from the spec: the difference of two vectors (\<open>operator-\<close> of ChVector.h).\<close>

definition Vsub :: "ChVector \<Rightarrow> ChVector \<Rightarrow> ChVector" where
  "Vsub a b = ChVector (vx a - vx b) (vy a - vy b) (vz a - vz b)"

text \<open>Modelled from the spec: a vector times a scalar (\<open>operator*\<close> of ChVector.h).\<close>

definition Vmul :: "ChVector \<Rightarrow> real \<Rightarrow> ChVector" where
  "Vmul a s = ChVector (vx a * s) (vy a * s) (vz a * s)"

text \<open>Modelled from the spec: a vector divided by a scalar (\<open>operator/\<close> of ChVector.h).\<close>

definition Vdiv :: "ChVector \<Rightarrow> real \<Rightarrow> ChVector" where
  "Vdiv a s = ChVector (vx a / s) (vy a / s) (vz a / s)"

text \<open>Modelled from the spec: the dot product (\<open>Vdot\<close> of ChVector.h).\<close>

definition Vdot :: "ChVector \<Rightarrow> ChVector \<Rightarrow> real" where
  "Vdot a b = vx a * vx b + vy a * vy b + vz a * vz b"

text \<open>
  Modelled from the spec: the cross product (\<open>Vcross\<close> and \<open>operator%\<close> on vectors, of
  ChVector.h).
\<close>

definition Vcross :: "ChVector \<Rightarrow> ChVector \<Rightarrow> ChVector" where
  "Vcross a b =
     ChVector (vy a * vz b - vz a * vy b)
              (vz a * vx b - vx a * vz b)
              (vx a * vy b - vy a * vx b)"

text \<open>Modelled from the spec: the squared length of a vector (\<open>Length2\<close> of ChVector.h).\<close>

definition Length2 :: "ChVector \<Rightarrow> real" where
  "Length2 a = Vdot a a"

text \<open>Modelled from the spec: the length of a vector (\<open>Length\<close> of ChVector.h).\<close>

definition Length :: "ChVector \<Rightarrow> real" where
  "Length a = sqrt (Length2 a)"

text \<open>
  Modelled from the spec: normalization (\<open>Normalize\<close> of ChVector.h), the vector scaled
  by the inverse of its length. What the absent function does with a vector of length
  zero is not described; here the division by zero yields the zero vector, and every
  statement that depends on a normalization excludes that case by a hypothesis.
\<close>

definition Normalize :: "ChVector \<Rightarrow> ChVector" where
  "Normalize a = Vmul a (1 / Length a)"

text \<open>
  Modelled from the spec: the quaternion product (\<open>operator%\<close> and \<open>operator*\<close> on
  quaternions, of the absent ChQuaternion.h), the composition of rotations.
\<close>

definition Qcross :: "ChQuaternion \<Rightarrow> ChQuaternion \<Rightarrow> ChQuaternion" where
  "Qcross p q =
     ChQuaternion
       (e0 p * e0 q - e1 p * e1 q - e2 p * e2 q - e3 p * e3 q)
       (e0 p * e1 q + e1 p * e0 q + e2 p * e3 q - e3 p * e2 q)
       (e0 p * e2 q - e1 p * e3 q + e2 p * e0 q + e3 p * e1 q)
       (e0 p * e3 q + e1 p * e2 q - e2 p * e1 q + e3 p * e0 q)"

text \<open>Modelled from the spec: the conjugate (\<open>GetConjugate\<close> of ChQuaternion.h).\<close>

definition GetConjugate :: "ChQuaternion \<Rightarrow> ChQuaternion" where
  "GetConjugate q = ChQuaternion (e0 q) (- e1 q) (- e2 q) (- e3 q)"

text \<open>
  Modelled from the spec: the squared norm of a quaternion (\<open>Length2\<close> of
  ChQuaternion.h); a quaternion has unit norm exactly when this is 1.
\<close>

definition QLength2 :: "ChQuaternion \<Rightarrow> real" where
  "QLength2 q = e0 q * e0 q + e1 q * e1 q + e2 q * e2 q + e3 q * e3 q"

text \<open>
  Modelled from the spec: the quaternion \<open>[0,v]\<close> with the scalar part 0 and the vector
  part \<open>v\<close>, as in the formulas documented for \<open>Rotate\<close> and \<open>RotateBack\<close>.
\<close>

definition Qpure :: "ChVector \<Rightarrow> ChQuaternion" where
  "Qpure v = ChQuaternion 0 (vx v) (vy v) (vz v)"

text \<open>
  Modelled from the spec: the vector part of a quaternion (\<open>GetVector\<close> of
  ChQuaternion.h).
\<close>

definition GetVector :: "ChQuaternion \<Rightarrow> ChVector" where
  "GetVector q = ChVector (e1 q) (e2 q) (e3 q)"

text \<open>
  Modelled from the spec: \<open>Rotate\<close> of the absent ChQuaternion.h, by the formula that
  ChCoordsys.h documents for it (line 277): \<open>q*[0,v]*q'\<close>, with \<open>q'\<close> the conjugate.
\<close>

definition Rotate :: "ChQuaternion \<Rightarrow> ChVector \<Rightarrow> ChVector" where
  "Rotate q A = GetVector (Qcross (Qcross q (Qpure A)) (GetConjugate q))"

text \<open>
  Modelled from the spec: \<open>RotateBack\<close> of the absent ChQuaternion.h, by the formula that
  ChCoordsys.h documents for it (line 285): \<open>q'*[0,v]*q\<close>.
\<close>

definition RotateBack :: "ChQuaternion \<Rightarrow> ChVector \<Rightarrow> ChVector" where
  "RotateBack q A = GetVector (Qcross (Qcross (GetConjugate q) (Qpure A)) q)"

section \<open>ChCoordsys: coordinate transformations\<close>

text \<open>ChCoordsys.h, line 278: a point from the local to the parent frame.\<close>

definition TransformLocalToParent :: "ChCoordsys \<Rightarrow> ChVector \<Rightarrow> ChVector" where
  "TransformLocalToParent cs local = Vadd (pos cs) (Rotate (rot cs) local)"

text \<open>ChCoordsys.h, line 286: a point from the parent to the local frame.\<close>

definition TransformParentToLocal :: "ChCoordsys \<Rightarrow> ChVector \<Rightarrow> ChVector" where
  "TransformParentToLocal cs parent = RotateBack (rot cs) (Vsub parent (pos cs))"

text \<open>
  ChCoordsys.h, lines 304-306: the overload of \<open>TransformLocalToParent\<close> that takes a
  coordinate system; \<open>operator*\<close> (line 165) calls it.
\<close>

definition TransformLocalToParent_csys :: "ChCoordsys \<Rightarrow> ChCoordsys \<Rightarrow> ChCoordsys" where
  "TransformLocalToParent_csys cs local =
     \<lparr>pos = TransformLocalToParent cs (pos local), rot = Qcross (rot cs) (rot local)\<rparr>"

definition csys_times :: "ChCoordsys \<Rightarrow> ChCoordsys \<Rightarrow> ChCoordsys" where
  "csys_times cs Fb = TransformLocalToParent_csys cs Fb"

section \<open>ChCoordsys: construction from a triad\<close>

text \<open>ChCoordsys.h, lines 101-105.\<close>

definition getMaxIdx :: "real \<Rightarrow> real \<Rightarrow> real \<Rightarrow> nat" where
  "getMaxIdx x0 x1 x2 = (if x0 \<ge> x1 \<and> x0 \<ge> x2 then 0 else if x1 \<ge> x2 then 1 else 2)"

text \<open>
  ChCoordsys.h, lines 57-100. The matrix \<open>R\<close> is a list of rows, \<open>R ! i ! j\<close> the entry of
  row \<open>i\<close> and column \<open>j\<close>. The array \<open>e\<close> is not initialised in the source; every branch
  assigns its four slots, and the model starts it from zeros. The indices \<open>i0\<close>, \<open>i1\<close>,
  \<open>i2\<close> only take the values 0, 1 and 2.
\<close>

definition ChCoordsys_triad :: "ChVector \<Rightarrow> ChVector \<Rightarrow> ChVector \<Rightarrow> ChCoordsys" where
  "ChCoordsys_triad origin xdir ydir =
     (let ux = Normalize (Vsub xdir origin);
          uz = Normalize (Vcross ux (Vsub ydir origin));
          uy = Normalize (Vcross uz ux);
          R = [[vx ux, vx uy, vx uz],
               [vy ux, vy uy, vy uz],
               [vz ux, vz uy, vz uz]];
          trace = R ! 0 ! 0 + R ! 1 ! 1 + R ! 2 ! 2;
          e = (if trace \<ge> 0 then
                 (let s = sqrt (1 + trace) * 2
                  in [0, 0, 0, 0]
                       [0 := s / 4,
                        1 := (R ! 1 ! 2 - R ! 2 ! 1) / s,
                        2 := (R ! 2 ! 0 - R ! 0 ! 2) / s,
                        3 := (R ! 0 ! 1 - R ! 1 ! 0) / s])
               else
                 (let i0 = getMaxIdx (R ! 0 ! 0) (R ! 1 ! 1) (R ! 2 ! 2);
                      i1 = (i0 + 1) mod 3;
                      i2 = (i1 + 1) mod 3;
                      s = sqrt (1 + R ! i0 ! i0 - R ! i1 ! i1 - R ! i2 ! i2) * 2
                  in [0, 0, 0, 0]
                       [0 := (R ! i2 ! i1 - R ! i1 ! i2) / s,
                        i0 + 1 := s / 4,
                        i1 + 1 := (R ! i0 ! i1 + R ! i1 ! i0) / s,
                        i2 + 1 := (R ! i0 ! i2 + R ! i2 ! i0) / s]))
      in \<lparr>pos = origin, rot = ChQuaternion (e ! 0) (e ! 1) (e ! 2) (e ! 3)\<rparr>)"

text \<open>
  The matrix \<open>R\<close> of the constructor on its own (lines 58-71), for the statements that
  speak of its entries and of its trace.
\<close>

definition triad_R :: "ChVector \<Rightarrow> ChVector \<Rightarrow> ChVector \<Rightarrow> real list list" where
  "triad_R origin xdir ydir =
     (let ux = Normalize (Vsub xdir origin);
          uz = Normalize (Vcross ux (Vsub ydir origin));
          uy = Normalize (Vcross uz ux)
      in [[vx ux, vx uy, vx uz],
          [vy ux, vy uy, vy uz],
          [vz ux, vz uy, vz uz]])"

definition triad_trace :: "ChVector \<Rightarrow> ChVector \<Rightarrow> ChVector \<Rightarrow> real" where
  "triad_trace origin xdir ydir =
     (let R = triad_R origin xdir ydir in R ! 0 ! 0 + R ! 1 ! 1 + R ! 2 ! 2)"

section \<open>ChTire: contact of a disc with the terrain\<close>

text \<open>
  The terrain is the oracle that \<open>disc_terrain_contact\<close> queries: a height and a normal
  over the horizontal plane.
\<close>

record ChTerrain =
  GetHeight :: "real \<Rightarrow> real \<Rightarrow> real"
  GetNormal :: "real \<Rightarrow> real \<Rightarrow> ChVector"

datatype error = AssertionFailed

text \<open>
  ChTire.cpp, lines 48-94. The output parameters \<open>contact\<close> and \<open>depth\<close> are passed in and
  returned beside the boolean result. The \<open>assert\<close> of line 91 is a branch of its own:
  with \<open>ndebug\<close> the macro expands to nothing, without it a failed assertion ends the
  run. \<open>ChMatrix33\<close> is not among the sources, so the conversion of the three axes to a
  quaternion (\<open>Set_A_axis\<close> followed by \<open>Get_A_quaternion\<close>) is the parameter
  \<open>A_quaternion\<close>.
\<close>

definition disc_terrain_contact ::
  "bool \<Rightarrow> (ChVector \<Rightarrow> ChVector \<Rightarrow> ChVector \<Rightarrow> ChQuaternion) \<Rightarrow> ChTerrain \<Rightarrow>
   ChVector \<Rightarrow> ChVector \<Rightarrow> real \<Rightarrow> ChCoordsys \<Rightarrow> real \<Rightarrow> error + (bool \<times> ChCoordsys \<times> real)"
where
  "disc_terrain_contact ndebug A_quaternion terrain disc_center disc_normal disc_radius
       contact depth =
     (let hc = GetHeight terrain (vx disc_center) (vy disc_center)
      in if vz disc_center \<le> hc \<or> vz disc_center \<ge> hc + disc_radius
         then Inr (False, contact, depth)
         else
           (let dir1 = Vcross disc_normal (ChVector 0 0 1);
                sinTilt2 = Length2 dir1
            in if sinTilt2 < 1 / 1000
               then Inr (False, contact, depth)
               else
                 (let ptD = Vadd disc_center
                              (Vmul (Vcross disc_normal (Vdiv dir1 (sqrt sinTilt2))) disc_radius);
                      hp = GetHeight terrain (vx ptD) (vy ptD)
                  in if vz ptD > hp
                     then Inr (False, contact, depth)
                     else
                       (let normal = GetNormal terrain (vx ptD) (vy ptD);
                            longitudinal = Normalize (Vcross disc_normal normal);
                            lateral = Vcross normal longitudinal;
                            contact' = contact\<lparr>pos := ptD,
                                                rot := A_quaternion longitudinal lateral normal\<rparr>;
                            depth' = Vdot (ChVector 0 0 (hp - vz ptD)) normal
                        in if ndebug \<or> depth' > 0
                           then Inr (True, contact', depth')
                           else Inl AssertionFailed))))"

section \<open>Composition of coordinate systems\<close>

text \<open>
  C1: for every pose \<open>A\<close> and every pose \<open>B\<close>, \<open>A.TransformLocalToParent(B)\<close> is the pose
  whose position is \<open>A.TransformLocalToParent(B.pos)\<close>, that is \<open>A.pos + A.rot.Rotate(B.pos)\<close>,
  and whose orientation is the quaternion product of \<open>A.rot\<close> and \<open>B.rot\<close>. The statement
  holds for every orientation, of unit norm or not.
\<close>

theorem TransformLocalToParent_csys_components:
  "pos (TransformLocalToParent_csys A B) = TransformLocalToParent A (pos B)
   \<and> TransformLocalToParent A (pos B) = Vadd (pos A) (Rotate (rot A) (pos B))
   \<and> rot (TransformLocalToParent_csys A B) = Qcross (rot A) (rot B)"
  by (simp add: TransformLocalToParent_csys_def TransformLocalToParent_def)

section \<open>Algebra of the primitives\<close>

lemma Vsub_Vadd_cancel: "Vsub (Vadd a b) a = b"
  by (simp add: Vsub_def Vadd_def)

lemma Vmul_one: "Vmul p 1 = p"
  by (simp add: Vmul_def)

lemma RotateBack_Rotate: "RotateBack q (Rotate q p) = Vmul p (QLength2 q * QLength2 q)"
  by (simp add: RotateBack_def Rotate_def Qcross_def GetConjugate_def Qpure_def
      GetVector_def Vmul_def QLength2_def algebra_simps)

lemma Qcross_assoc: "Qcross (Qcross a b) c = Qcross a (Qcross b c)"
  by (simp add: Qcross_def algebra_simps)

lemma Rotate_Qcross: "Rotate (Qcross a b) v = Rotate a (Rotate b v)"
  by (simp add: Rotate_def Qcross_def GetConjugate_def Qpure_def GetVector_def algebra_simps)

lemma Rotate_Vadd: "Rotate a (Vadd v w) = Vadd (Rotate a v) (Rotate a w)"
  by (simp add: Rotate_def Qcross_def GetConjugate_def Qpure_def GetVector_def Vadd_def
      algebra_simps)

lemma Vadd_assoc: "Vadd (Vadd a b) c = Vadd a (Vadd b c)"
  by (simp add: Vadd_def)

section \<open>Round trip of a point\<close>

text \<open>
  C7: for every pose \<open>A\<close> whose orientation has unit norm and every point \<open>p\<close>,
  \<open>A.TransformParentToLocal(A.TransformLocalToParent(p))\<close> is \<open>p\<close>, in exact arithmetic.
  The norm is one exactly when its square \<open>QLength2\<close> is.
\<close>

theorem TransformParentToLocal_round_trip:
  assumes "QLength2 (rot A) = 1"
  shows "TransformParentToLocal A (TransformLocalToParent A p) = p"
proof -
  have "TransformParentToLocal A (TransformLocalToParent A p)
        = RotateBack (rot A) (Rotate (rot A) p)"
    by (simp add: TransformParentToLocal_def TransformLocalToParent_def Vsub_Vadd_cancel)
  also have "\<dots> = Vmul p (QLength2 (rot A) * QLength2 (rot A))"
    by (rule RotateBack_Rotate)
  also have "\<dots> = p"
    using assms by (simp add: Vmul_one)
  finally show ?thesis .
qed

theorem TransformParentToLocal_round_trip_witness:
  "QLength2 (rot \<lparr>pos = ChVector 5 6 7, rot = ChQuaternion (1/2) (1/2) (-1/2) (1/2)\<rparr>) = 1
   \<and> TransformParentToLocal \<lparr>pos = ChVector 5 6 7, rot = ChQuaternion (1/2) (1/2) (-1/2) (1/2)\<rparr>
        (TransformLocalToParent \<lparr>pos = ChVector 5 6 7, rot = ChQuaternion (1/2) (1/2) (-1/2) (1/2)\<rparr>
           (ChVector 2 3 4))
      = ChVector 2 3 4"
proof -
  have h: "QLength2 (rot \<lparr>pos = ChVector 5 6 7, rot = ChQuaternion (1/2) (1/2) (-1/2) (1/2)\<rparr>) = 1"
    by (simp add: QLength2_def)
  show ?thesis
    using h TransformParentToLocal_round_trip [OF h, of "ChVector 2 3 4"] by simp
qed

section \<open>Associativity of the composition\<close>

text \<open>
  C8: for all poses \<open>A\<close>, \<open>B\<close>, \<open>C\<close> with orientations of unit norm,
  \<open>(A.TransformLocalToParent(B)).TransformLocalToParent(C)\<close> equals
  \<open>A.TransformLocalToParent(B.TransformLocalToParent(C))\<close>, and the same equation holds
  written with \<open>operator*\<close>: \<open>(A*B)*C = A*(B*C)\<close>, in exact arithmetic.
\<close>

theorem TransformLocalToParent_csys_assoc:
  assumes "QLength2 (rot A) = 1" and "QLength2 (rot B) = 1" and "QLength2 (rot C) = 1"
  shows "TransformLocalToParent_csys (TransformLocalToParent_csys A B) C
           = TransformLocalToParent_csys A (TransformLocalToParent_csys B C)
         \<and> csys_times (csys_times A B) C = csys_times A (csys_times B C)"
  by (simp add: csys_times_def TransformLocalToParent_csys_def TransformLocalToParent_def
      Qcross_assoc Rotate_Qcross Rotate_Vadd Vadd_assoc)

theorem TransformLocalToParent_csys_assoc_witness:
  "QLength2 (rot \<lparr>pos = ChVector 5 6 7, rot = ChQuaternion (1/2) (1/2) (1/2) (1/2)\<rparr>) = 1
   \<and> QLength2 (rot \<lparr>pos = ChVector 4 1 3, rot = ChQuaternion (3/5) 0 (4/5) 0\<rparr>) = 1
   \<and> QLength2 (rot \<lparr>pos = ChVector 1 5 1, rot = ChQuaternion 0 (5/13) 0 (12/13)\<rparr>) = 1
   \<and> csys_times
       (csys_times \<lparr>pos = ChVector 5 6 7, rot = ChQuaternion (1/2) (1/2) (1/2) (1/2)\<rparr>
                   \<lparr>pos = ChVector 4 1 3, rot = ChQuaternion (3/5) 0 (4/5) 0\<rparr>)
       \<lparr>pos = ChVector 1 5 1, rot = ChQuaternion 0 (5/13) 0 (12/13)\<rparr>
     = csys_times \<lparr>pos = ChVector 5 6 7, rot = ChQuaternion (1/2) (1/2) (1/2) (1/2)\<rparr>
         (csys_times \<lparr>pos = ChVector 4 1 3, rot = ChQuaternion (3/5) 0 (4/5) 0\<rparr>
                     \<lparr>pos = ChVector 1 5 1, rot = ChQuaternion 0 (5/13) 0 (12/13)\<rparr>)"
proof -
  have a: "QLength2 (rot \<lparr>pos = ChVector 5 6 7, rot = ChQuaternion (1/2) (1/2) (1/2) (1/2)\<rparr>) = 1"
    by (simp add: QLength2_def)
  have b: "QLength2 (rot \<lparr>pos = ChVector 4 1 3, rot = ChQuaternion (3/5) 0 (4/5) 0\<rparr>) = 1"
    by (simp add: QLength2_def)
  have c: "QLength2 (rot \<lparr>pos = ChVector 1 5 1, rot = ChQuaternion 0 (5/13) 0 (12/13)\<rparr>) = 1"
    by (simp add: QLength2_def)
  show ?thesis
    using a b c TransformLocalToParent_csys_assoc [OF a b c] by blast
qed

section \<open>Disc and terrain: the exits without contact\<close>

lemma sqrt_eqI: "0 \<le> y \<Longrightarrow> y * y = x \<Longrightarrow> sqrt x = y"
  by (rule real_sqrt_unique) (simp_all add: power2_eq_square)

lemma sqrt_9_25: "sqrt (9 / 25) = 3 / 5"
  by (rule sqrt_eqI) simp_all

text \<open>
  C9: for every terrain, every disc center and every radius, \<open>disc_terrain_contact\<close>
  called with the disc normal \<open>(0,0,1)\<close> returns false, with or without assertions
  compiled in. The theorem also records that the output parameters come back as they
  were passed.
\<close>

theorem disc_terrain_contact_horizontal:
  "disc_terrain_contact ndebug A_quaternion terrain disc_center (ChVector 0 0 1) disc_radius
     contact depth = Inr (False, contact, depth)"
  by (simp add: disc_terrain_contact_def Let_def Vcross_def Length2_def Vdot_def)

text \<open>
  C10: whenever \<open>disc_terrain_contact\<close> returns false, by any of its three early exits,
  the output parameters \<open>contact\<close> and \<open>depth\<close> are unchanged.
\<close>

theorem disc_terrain_contact_false_frame:
  assumes "disc_terrain_contact ndebug A_quaternion terrain disc_center disc_normal disc_radius
             contact depth = Inr (False, contact', depth')"
  shows "contact' = contact \<and> depth' = depth"
  using assms by (auto simp add: disc_terrain_contact_def Let_def split: if_splits)

theorem disc_terrain_contact_false_frame_witness:
  "disc_terrain_contact False (\<lambda>a b c. ChQuaternion 1 0 0 0)
     \<lparr>GetHeight = (\<lambda>x y. - x), GetNormal = (\<lambda>x y. ChVector (3/5) 0 (4/5))\<rparr>
     (ChVector 0 0 (1/2)) (ChVector (3/5) 0 (4/5)) 5
     \<lparr>pos = ChVector 1 2 3, rot = ChQuaternion 0 1 0 0\<rparr> 7
   = Inr (False, \<lparr>pos = ChVector 1 2 3, rot = ChQuaternion 0 1 0 0\<rparr>, 7)
   \<and> (\<lparr>pos = ChVector 1 2 3, rot = ChQuaternion 0 1 0 0\<rparr>
        = \<lparr>pos = ChVector 1 2 3, rot = ChQuaternion 0 1 0 0\<rparr> \<and> (7::real) = 7)"
proof -
  have h: "disc_terrain_contact False (\<lambda>a b c. ChQuaternion 1 0 0 0)
     \<lparr>GetHeight = (\<lambda>x y. - x), GetNormal = (\<lambda>x y. ChVector (3/5) 0 (4/5))\<rparr>
     (ChVector 0 0 (1/2)) (ChVector (3/5) 0 (4/5)) 5
     \<lparr>pos = ChVector 1 2 3, rot = ChQuaternion 0 1 0 0\<rparr> 7
   = Inr (False, \<lparr>pos = ChVector 1 2 3, rot = ChQuaternion 0 1 0 0\<rparr>, 7)"
    by (simp add: disc_terrain_contact_def Let_def Vcross_def Length2_def Vdot_def Vadd_def
        Vmul_def Vdiv_def sqrt_9_25)
  show ?thesis
    using h disc_terrain_contact_false_frame [OF h] by blast
qed

section \<open>Disc and terrain: the penetration depth\<close>

text \<open>
  With assertions compiled in, a call that returns true has passed the assertion of
  line 91.
\<close>

lemma disc_terrain_contact_assert_guard:
  assumes "disc_terrain_contact False A_quaternion terrain disc_center disc_normal disc_radius
             contact depth = Inr (True, contact', depth')"
  shows "0 < depth'"
  using assms by (auto simp add: disc_terrain_contact_def Let_def split: if_splits)

text \<open>
  C2: whenever \<open>disc_terrain_contact\<close> returns true, the depth it writes is strictly
  positive. The source asserts this (line 91) and its header comment promises a positive
  value, but the guard of line 75 lets the lowest rim point lie exactly on the terrain.
  Over a flat terrain of height 0 with normal \<open>(0,0,1)\<close>, the disc of radius 5 centered at
  \<open>(0,0,3)\<close> with the unit normal \<open>(3/5,0,4/5)\<close> has its lowest point at \<open>(4,0,0)\<close>: the
  computed depth is 0. Without assertions the function returns true with depth 0; with
  assertions the assertion fails.
\<close>

theorem disc_terrain_contact_touching_depth_zero:
  "disc_terrain_contact True (\<lambda>a b c. ChQuaternion 1 0 0 0)
     \<lparr>GetHeight = (\<lambda>x y. 0), GetNormal = (\<lambda>x y. ChVector 0 0 1)\<rparr>
     (ChVector 0 0 3) (ChVector (3/5) 0 (4/5)) 5
     \<lparr>pos = ChVector 1 2 3, rot = ChQuaternion 0 1 0 0\<rparr> 7
   = Inr (True, \<lparr>pos = ChVector 4 0 0, rot = ChQuaternion 1 0 0 0\<rparr>, 0)
   \<and> disc_terrain_contact False (\<lambda>a b c. ChQuaternion 1 0 0 0)
     \<lparr>GetHeight = (\<lambda>x y. 0), GetNormal = (\<lambda>x y. ChVector 0 0 1)\<rparr>
     (ChVector 0 0 3) (ChVector (3/5) 0 (4/5)) 5
     \<lparr>pos = ChVector 1 2 3, rot = ChQuaternion 0 1 0 0\<rparr> 7
   = Inl AssertionFailed
   \<and> Length2 (ChVector (3/5) 0 (4/5)) = 1"
  by (simp add: disc_terrain_contact_def Let_def Vcross_def Length2_def Vdot_def Vadd_def
      Vmul_def Vdiv_def sqrt_9_25)

section \<open>The axes of the triad\<close>

lemma Length2_nonneg: "0 \<le> Length2 v"
  by (simp add: Length2_def Vdot_def)

lemma Length2_pos: "v \<noteq> ChVector 0 0 0 \<Longrightarrow> 0 < Length2 v"
proof (cases v)
  case (ChVector a b c)
  assume "v \<noteq> ChVector 0 0 0"
  then have "a \<noteq> 0 \<or> b \<noteq> 0 \<or> c \<noteq> 0" using ChVector by simp
  then have "0 < a * a \<or> 0 < b * b \<or> 0 < c * c"
    by (simp add: zero_less_mult_iff) (metis linorder_neqE_linordered_idom)
  moreover have "0 \<le> a * a" "0 \<le> b * b" "0 \<le> c * c" by simp_all
  ultimately have "0 < a * a + b * b + c * c" by linarith
  then show ?thesis using ChVector by (simp add: Length2_def Vdot_def)
qed

lemma Length2_Vmul: "Length2 (Vmul v k) = Length2 v * (k * k)"
  by (simp add: Length2_def Vdot_def Vmul_def algebra_simps)

lemma Length2_Normalize: "0 < Length2 v \<Longrightarrow> Length2 (Normalize v) = 1"
proof -
  assume p: "0 < Length2 v"
  have "(1 / Length v) * (1 / Length v) = 1 / (Length v * Length v)" by simp
  also have "\<dots> = 1 / Length2 v" using p by (simp add: Length_def)
  finally have "(1 / Length v) * (1 / Length v) = 1 / Length2 v" .
  then show ?thesis using p by (simp add: Normalize_def Length2_Vmul)
qed

lemma Normalize_unit: "Length2 v = 1 \<Longrightarrow> Normalize v = v"
  by (simp add: Normalize_def Length_def Vmul_def)

lemma Vcross_Vmul_left: "Vcross (Vmul a k) b = Vmul (Vcross a b) k"
  by (simp add: Vcross_def Vmul_def algebra_simps)

lemma Vdot_Vcross_left: "Vdot (Vcross a b) a = 0"
  by (simp add: Vcross_def Vdot_def algebra_simps)

lemma Vdot_Vmul_left: "Vdot (Vmul a k) b = Vdot a b * k"
  by (simp add: Vdot_def Vmul_def algebra_simps)

lemma Length2_Vcross: "Length2 (Vcross w u) = Length2 w * Length2 u - Vdot w u * Vdot w u"
  by (simp add: Length2_def Vcross_def Vdot_def algebra_simps)

lemma Length_pos: "0 < Length2 v \<Longrightarrow> 0 < Length v"
  by (simp add: Length_def)

lemma triad_axes_orthonormal:
  assumes a0: "Vsub xdir origin \<noteq> ChVector 0 0 0"
    and ab0: "Vcross (Vsub xdir origin) (Vsub ydir origin) \<noteq> ChVector 0 0 0"
  shows "Length2 (Normalize (Vsub xdir origin)) = 1"
    and "Length2 (Normalize (Vcross (Normalize (Vsub xdir origin)) (Vsub ydir origin))) = 1"
    and "Vdot (Normalize (Vcross (Normalize (Vsub xdir origin)) (Vsub ydir origin)))
              (Normalize (Vsub xdir origin)) = 0"
proof -
  let ?a = "Vsub xdir origin" and ?b = "Vsub ydir origin"
  have pa: "0 < Length2 ?a" using a0 by (rule Length2_pos)
  show ux: "Length2 (Normalize ?a) = 1" using pa by (rule Length2_Normalize)
  have k: "0 < 1 / Length ?a" using Length_pos [OF pa] by simp
  have cr: "Vcross (Normalize ?a) ?b = Vmul (Vcross ?a ?b) (1 / Length ?a)"
    by (simp add: Normalize_def Vcross_Vmul_left)
  have "0 < Length2 (Vcross ?a ?b)" using ab0 by (rule Length2_pos)
  then have pc: "0 < Length2 (Vcross (Normalize ?a) ?b)"
    using k by (simp add: cr Length2_Vmul)
  show "Length2 (Normalize (Vcross (Normalize ?a) ?b)) = 1"
    using pc by (rule Length2_Normalize)
  show "Vdot (Normalize (Vcross (Normalize ?a) ?b)) (Normalize ?a) = 0"
    by (simp add: Normalize_def [of "Vcross (Normalize ?a) ?b"] Vdot_Vmul_left Vdot_Vcross_left)
qed

section \<open>From a rotation matrix to a quaternion of unit norm\<close>

text \<open>
  The entries \<open>rij\<close> are those of a matrix with orthonormal columns whose diagonal
  entries equal their cofactors. The first identity handles the branch of a nonnegative
  trace, the second the pivot branch; the three pivots are cyclic shifts of one another.
\<close>

lemma rot_offdiag_identity:
  fixes r00 r01 r02 r10 r11 r12 r20 r21 r22 :: real
  assumes sq: "r00*r00 + r01*r01 + r02*r02 + r10*r10 + r11*r11 + r12*r12
               + r20*r20 + r21*r21 + r22*r22 = 3"
    and c0: "r11*r22 - r12*r21 = r00"
    and c1: "r22*r00 - r20*r02 = r11"
    and c2: "r00*r11 - r01*r10 = r22"
  shows "(r12 - r21)*(r12 - r21) + (r20 - r02)*(r20 - r02) + (r01 - r10)*(r01 - r10)
         = (1 + (r00 + r11 + r22)) * (3 - (r00 + r11 + r22))"
proof -
  have "(r12 - r21)*(r12 - r21) + (r20 - r02)*(r20 - r02) + (r01 - r10)*(r01 - r10)
        - (1 + (r00 + r11 + r22)) * (3 - (r00 + r11 + r22))
      = (r00*r00 + r01*r01 + r02*r02 + r10*r10 + r11*r11 + r12*r12
               + r20*r20 + r21*r21 + r22*r22 - 3)
        + 2 * ((r11*r22 - r12*r21 - r00) + (r22*r00 - r20*r02 - r11) + (r00*r11 - r01*r10 - r22))"
    by (simp add: algebra_simps)
  then show ?thesis using sq c0 c1 c2 by simp
qed

lemma rot_pivot_identity:
  fixes r00 r01 r02 r10 r11 r12 r20 r21 r22 :: real
  assumes sq: "r00*r00 + r01*r01 + r02*r02 + r10*r10 + r11*r11 + r12*r12
               + r20*r20 + r21*r21 + r22*r22 = 3"
    and c0: "r11*r22 - r12*r21 = r00"
    and c1: "r22*r00 - r20*r02 = r11"
    and c2: "r00*r11 - r01*r10 = r22"
  shows "(r21 - r12)*(r21 - r12) + (r01 + r10)*(r01 + r10) + (r02 + r20)*(r02 + r20)
         = (1 + r00 - r11 - r22) * (4 - (1 + r00 - r11 - r22))"
proof -
  have "(r21 - r12)*(r21 - r12) + (r01 + r10)*(r01 + r10) + (r02 + r20)*(r02 + r20)
        - (1 + r00 - r11 - r22) * (4 - (1 + r00 - r11 - r22))
      = (r00*r00 + r01*r01 + r02*r02 + r10*r10 + r11*r11 + r12*r12
               + r20*r20 + r21*r21 + r22*r22 - 3)
        + 2 * ((r11*r22 - r12*r21 - r00) - (r22*r00 - r20*r02 - r11) - (r00*r11 - r01*r10 - r22))"
    by (simp add: algebra_simps)
  then show ?thesis using sq c0 c1 c2 by simp
qed

lemma trace_ge_minus_one:
  fixes r00 r01 r02 r10 r11 r12 r20 r21 r22 :: real
  assumes sq: "r00*r00 + r01*r01 + r02*r02 + r10*r10 + r11*r11 + r12*r12
               + r20*r20 + r21*r21 + r22*r22 = 3"
    and c0: "r11*r22 - r12*r21 = r00"
    and c1: "r22*r00 - r20*r02 = r11"
    and c2: "r00*r11 - r01*r10 = r22"
    and neg: "r00 + r11 + r22 < 0"
  shows "- 1 \<le> r00 + r11 + r22"
proof (rule ccontr)
  assume "\<not> - 1 \<le> r00 + r11 + r22"
  then have a: "1 + (r00 + r11 + r22) < 0" by simp
  have b: "0 < 3 - (r00 + r11 + r22)" using neg by simp
  have "(1 + (r00 + r11 + r22)) * (3 - (r00 + r11 + r22)) < 0"
    using a b by (rule mult_neg_pos)
  moreover have "0 \<le> (r12 - r21)*(r12 - r21) + (r20 - r02)*(r20 - r02) + (r01 - r10)*(r01 - r10)"
    by (intro add_nonneg_nonneg zero_le_square)
  ultimately show False
    using rot_offdiag_identity [OF sq c0 c1 c2] by simp
qed

lemma sum4_unit:
  fixes s q A B C :: real
  assumes qpos: "0 < q" and ss: "s * s = 4 * q" and N: "A + B + C = q * (4 - q)"
  shows "s * s / 16 + A / (s * s) + B / (s * s) + C / (s * s) = 1"
proof -
  have "s * s / 16 + A / (s * s) + B / (s * s) + C / (s * s)
        = s * s / 16 + (A + B + C) / (s * s)"
    by (simp add: add_divide_distrib)
  also have "\<dots> = (4 * q) / 16 + (q * (4 - q)) / (4 * q)"
    by (simp only: ss N)
  also have "\<dots> = 1" using qpos by (simp add: field_simps)
  finally show ?thesis .
qed

lemma quat_unit_trace_nonneg:
  fixes r00 r01 r02 r10 r11 r12 r20 r21 r22 s :: real
  assumes sq: "r00*r00 + r01*r01 + r02*r02 + r10*r10 + r11*r11 + r12*r12
               + r20*r20 + r21*r21 + r22*r22 = 3"
    and c0: "r11*r22 - r12*r21 = r00"
    and c1: "r22*r00 - r20*r02 = r11"
    and c2: "r00*r11 - r01*r10 = r22"
    and t: "0 \<le> r00 + r11 + r22"
    and s: "s = sqrt (1 + (r00 + r11 + r22)) * 2"
  shows "(s / 4) * (s / 4) + ((r12 - r21) / s) * ((r12 - r21) / s)
         + ((r20 - r02) / s) * ((r20 - r02) / s) + ((r01 - r10) / s) * ((r01 - r10) / s) = 1"
proof -
  define q where "q = 1 + (r00 + r11 + r22)"
  have qpos: "0 < q" using t by (simp add: q_def)
  have ss: "s * s = 4 * q" using qpos by (simp add: s q_def)
  have D: "(r12 - r21)*(r12 - r21) + (r20 - r02)*(r20 - r02) + (r01 - r10)*(r01 - r10)
           = q * (4 - q)"
    using rot_offdiag_identity [OF sq c0 c1 c2] by (simp add: q_def)
  show ?thesis
    using sum4_unit [OF qpos ss D] by (simp only: times_divide_times_eq)
qed

lemma quat_unit_pivot:
  fixes r00 r01 r02 r10 r11 r12 r20 r21 r22 s :: real
  assumes sq: "r00*r00 + r01*r01 + r02*r02 + r10*r10 + r11*r11 + r12*r12
               + r20*r20 + r21*r21 + r22*r22 = 3"
    and c0: "r11*r22 - r12*r21 = r00"
    and c1: "r22*r00 - r20*r02 = r11"
    and c2: "r00*r11 - r01*r10 = r22"
    and t: "r00 + r11 + r22 < 0"
    and m1: "r11 \<le> r00" and m2: "r22 \<le> r00"
    and s: "s = sqrt (1 + r00 - r11 - r22) * 2"
  shows "((r21 - r12) / s) * ((r21 - r12) / s) + (s / 4) * (s / 4)
         + ((r01 + r10) / s) * ((r01 + r10) / s) + ((r02 + r20) / s) * ((r02 + r20) / s) = 1"
proof -
  define q where "q = 1 + r00 - r11 - r22"
  have "- 1 \<le> r00 + r11 + r22" by (rule trace_ge_minus_one [OF sq c0 c1 c2 t])
  then have qpos: "0 < q" using t m1 m2 by (simp add: q_def)
  have ss: "s * s = 4 * q" using qpos by (simp add: s q_def)
  have N: "(r21 - r12)*(r21 - r12) + (r01 + r10)*(r01 + r10) + (r02 + r20)*(r02 + r20)
           = q * (4 - q)"
    using rot_pivot_identity [OF sq c0 c1 c2] by (simp add: q_def)
  show ?thesis
    using sum4_unit [OF qpos ss N] by (simp only: times_divide_times_eq)
qed

lemma triad_quaternion_unit:
  assumes nx: "Normalize (Vsub xdir origin) = ChVector u1 u2 u3"
    and nz: "Normalize (Vcross (ChVector u1 u2 u3) (Vsub ydir origin)) = ChVector w1 w2 w3"
    and uu: "u1 * u1 + u2 * u2 + u3 * u3 = 1"
    and ww: "w1 * w1 + w2 * w2 + w3 * w3 = 1"
    and wu: "w1 * u1 + w2 * u2 + w3 * u3 = 0"
  shows "QLength2 (rot (ChCoordsys_triad origin xdir ydir)) = 1"
proof -
  define v1 where "v1 = w2 * u3 - w3 * u2"
  define v2 where "v2 = w3 * u1 - w1 * u3"
  define v3 where "v3 = w1 * u2 - w2 * u1"
  have cr: "Vcross (ChVector w1 w2 w3) (ChVector u1 u2 u3) = ChVector v1 v2 v3"
    by (simp add: Vcross_def v1_def v2_def v3_def)
  have "Length2 (ChVector v1 v2 v3) = 1"
    unfolding cr [symmetric] Length2_Vcross using uu ww wu by (simp add: Length2_def Vdot_def)
  then have vv: "v1 * v1 + v2 * v2 + v3 * v3 = 1" and ny: "Normalize (ChVector v1 v2 v3) = ChVector v1 v2 v3"
    by (simp_all add: Normalize_unit) (simp add: Length2_def Vdot_def)
  have sq: "u1*u1 + v1*v1 + w1*w1 + u2*u2 + v2*v2 + w2*w2 + u3*u3 + v3*v3 + w3*w3 = 3"
    using uu vv ww by linarith
  have c1: "w3 * u1 - u3 * w1 = v2" by (simp add: v2_def)
  have "v2 * w3 - w2 * v3 = u1 * (w1 * w1 + w2 * w2 + w3 * w3) - w1 * (w1 * u1 + w2 * u2 + w3 * u3)"
    by (simp add: v2_def v3_def algebra_simps)
  then have c0: "v2 * w3 - w2 * v3 = u1" by (simp add: ww wu)
  have "u1 * v2 - v1 * u2 = w3 * (u1 * u1 + u2 * u2 + u3 * u3) - u3 * (w1 * u1 + w2 * u2 + w3 * u3)"
    by (simp add: v1_def v2_def algebra_simps)
  then have c2: "u1 * v2 - v1 * u2 = w3" by (simp add: uu wu)
  have sq1: "v2*v2 + w2*w2 + u2*u2 + v3*v3 + w3*w3 + u3*u3 + v1*v1 + w1*w1 + u1*u1 = 3"
    using sq by linarith
  have sq2: "w3*w3 + u3*u3 + v3*v3 + w1*w1 + u1*u1 + v1*v1 + w2*w2 + u2*u2 + v2*v2 = 3"
    using sq by linarith
  consider (pos) "0 \<le> u1 + v2 + w3"
    | (p0) "u1 + v2 + w3 < 0" "v2 \<le> u1" "w3 \<le> u1"
    | (p1) "u1 + v2 + w3 < 0" "\<not> (v2 \<le> u1 \<and> w3 \<le> u1)" "w3 \<le> v2"
    | (p2) "u1 + v2 + w3 < 0" "\<not> (v2 \<le> u1 \<and> w3 \<le> u1)" "\<not> w3 \<le> v2"
    by linarith
  then show ?thesis
  proof cases
    case pos
    define s where "s = sqrt (1 + (u1 + v2 + w3)) * 2"
    have r: "rot (ChCoordsys_triad origin xdir ydir)
             = ChQuaternion (s / 4) ((w2 - v3) / s) ((u3 - w1) / s) ((v1 - u2) / s)"
      using pos by (simp add: ChCoordsys_triad_def Let_def nx nz cr ny s_def)
    show ?thesis
      using quat_unit_trace_nonneg [OF sq c0 c1 c2 pos s_def]
      by (simp add: r QLength2_def)
  next
    case p0
    define s where "s = sqrt (1 + u1 - v2 - w3) * 2"
    have r: "rot (ChCoordsys_triad origin xdir ydir)
             = ChQuaternion ((v3 - w2) / s) (s / 4) ((v1 + u2) / s) ((w1 + u3) / s)"
      using p0 by (simp add: ChCoordsys_triad_def Let_def nx nz cr ny s_def getMaxIdx_def)
    show ?thesis
      using quat_unit_pivot [OF sq c0 c1 c2 p0(1) p0(2) p0(3) s_def]
      by (simp add: r QLength2_def)
  next
    case p1
    define s where "s = sqrt (1 + v2 - w3 - u1) * 2"
    have r: "rot (ChCoordsys_triad origin xdir ydir)
             = ChQuaternion ((w1 - u3) / s) ((u2 + v1) / s) (s / 4) ((w2 + v3) / s)"
      using p1 by (simp add: ChCoordsys_triad_def Let_def nx nz cr ny s_def getMaxIdx_def)
    have t: "v2 + w3 + u1 < 0" using p1(1) by simp
    have m: "u1 \<le> v2" using p1(2,3) by linarith
    show ?thesis
      using quat_unit_pivot [OF sq1 c1 c2 c0 t p1(3) m s_def]
      by (simp add: r QLength2_def)
  next
    case p2
    define s where "s = sqrt (1 + w3 - u1 - v2) * 2"
    have n: "\<not> w3 \<le> u1" using p2(2,3) by linarith
    have r: "rot (ChCoordsys_triad origin xdir ydir)
             = ChQuaternion ((u2 - v1) / s) ((u3 + w1) / s) ((v3 + w2) / s) (s / 4)"
      using p2(1,3) n by (simp add: ChCoordsys_triad_def Let_def nx nz cr ny s_def getMaxIdx_def)
    have t: "w3 + u1 + v2 < 0" using p2(1) by simp
    have m1: "u1 \<le> w3" using n by linarith
    have m2: "v2 \<le> w3" using p2(3) by linarith
    show ?thesis
      using quat_unit_pivot [OF sq2 c2 c0 c1 t m1 m2 s_def]
      by (simp add: r QLength2_def)
  qed
qed

text \<open>
  C6: for every triad whose points are not colinear (\<open>xdir - origin\<close> is not zero and its
  cross product with \<open>ydir - origin\<close> is not zero), the constructed pose has the position
  \<open>origin\<close> and an orientation of norm exactly one, in the branch of a nonnegative trace
  and in the pivot branch alike, with no final normalization.
\<close>

theorem ChCoordsys_triad_unit:
  assumes a0: "Vsub xdir origin \<noteq> ChVector 0 0 0"
    and ab0: "Vcross (Vsub xdir origin) (Vsub ydir origin) \<noteq> ChVector 0 0 0"
  shows "pos (ChCoordsys_triad origin xdir ydir) = origin
         \<and> QLength2 (rot (ChCoordsys_triad origin xdir ydir)) = 1"
proof
  show "pos (ChCoordsys_triad origin xdir ydir) = origin"
    by (simp add: ChCoordsys_triad_def Let_def)
next
  obtain u1 u2 u3 where nx: "Normalize (Vsub xdir origin) = ChVector u1 u2 u3"
    by (cases "Normalize (Vsub xdir origin)") blast
  obtain w1 w2 w3 where
    nz: "Normalize (Vcross (ChVector u1 u2 u3) (Vsub ydir origin)) = ChVector w1 w2 w3"
    by (cases "Normalize (Vcross (ChVector u1 u2 u3) (Vsub ydir origin))") blast
  note on = triad_axes_orthonormal [OF a0 ab0, unfolded nx nz]
  have uu: "u1 * u1 + u2 * u2 + u3 * u3 = 1"
    using on(1) by (simp add: Length2_def Vdot_def)
  have ww: "w1 * w1 + w2 * w2 + w3 * w3 = 1"
    using on(2) by (simp add: Length2_def Vdot_def)
  have wu: "w1 * u1 + w2 * u2 + w3 * u3 = 0"
    using on(3) by (simp add: Vdot_def)
  show "QLength2 (rot (ChCoordsys_triad origin xdir ydir)) = 1"
    by (rule triad_quaternion_unit [OF nx nz uu ww wu])
qed

theorem ChCoordsys_triad_unit_witness:
  "Vsub (ChVector 2 2 3) (ChVector 1 2 3) \<noteq> ChVector 0 0 0
   \<and> Vcross (Vsub (ChVector 2 2 3) (ChVector 1 2 3)) (Vsub (ChVector 1 3 4) (ChVector 1 2 3))
       \<noteq> ChVector 0 0 0
   \<and> pos (ChCoordsys_triad (ChVector 1 2 3) (ChVector 2 2 3) (ChVector 1 3 4)) = ChVector 1 2 3
   \<and> QLength2 (rot (ChCoordsys_triad (ChVector 1 2 3) (ChVector 2 2 3) (ChVector 1 3 4))) = 1"
proof -
  have a: "Vsub (ChVector 2 2 3) (ChVector 1 2 3) \<noteq> ChVector 0 0 0"
    by (simp add: Vsub_def)
  have b: "Vcross (Vsub (ChVector 2 2 3) (ChVector 1 2 3)) (Vsub (ChVector 1 3 4) (ChVector 1 2 3))
       \<noteq> ChVector 0 0 0"
    by (simp add: Vsub_def Vcross_def)
  show ?thesis
    using a b ChCoordsys_triad_unit [OF a b] by blast
qed

section \<open>The constructor at concrete triads\<close>

lemma sqrt_4: "sqrt 4 = 2"
  by (rule sqrt_eqI) simp_all

lemma sqrt_625: "sqrt 625 = 25"
  by (rule sqrt_eqI) simp_all

lemma sqrt_49_625: "sqrt (49 / 625) = 7 / 25"
  by (rule sqrt_eqI) simp_all

lemma sqrt_64_25: "sqrt (64 / 25) = 8 / 5"
  by (rule sqrt_eqI) simp_all

lemmas triad_eval_defs =
  ChCoordsys_triad_def triad_R_def triad_trace_def Let_def Normalize_def Length_def
  Length2_def Vdot_def Vsub_def Vcross_def Vmul_def getMaxIdx_def

text \<open>
  C5: with the origin \<open>(0,0,0)\<close>, the triad \<open>xdir = (1,0,0)\<close>, \<open>ydir = (0,-1,0)\<close> yields the
  quaternion \<open>(0,1,0,0)\<close>, the triad \<open>(-1,0,0)\<close>, \<open>(0,1,0)\<close> yields \<open>(0,0,1,0)\<close> and the triad
  \<open>(-1,0,0)\<close>, \<open>(0,-1,0)\<close> yields \<open>(0,0,0,1)\<close>; in each case the trace is \<open>-1\<close>, so the
  pivot branch is the one taken.
\<close>

theorem triad_half_turns:
  "ChCoordsys_triad (ChVector 0 0 0) (ChVector 1 0 0) (ChVector 0 (- 1) 0)
     = \<lparr>pos = ChVector 0 0 0, rot = ChQuaternion 0 1 0 0\<rparr>
   \<and> ChCoordsys_triad (ChVector 0 0 0) (ChVector (- 1) 0 0) (ChVector 0 1 0)
     = \<lparr>pos = ChVector 0 0 0, rot = ChQuaternion 0 0 1 0\<rparr>
   \<and> ChCoordsys_triad (ChVector 0 0 0) (ChVector (- 1) 0 0) (ChVector 0 (- 1) 0)
     = \<lparr>pos = ChVector 0 0 0, rot = ChQuaternion 0 0 0 1\<rparr>
   \<and> triad_trace (ChVector 0 0 0) (ChVector 1 0 0) (ChVector 0 (- 1) 0) = - 1
   \<and> triad_trace (ChVector 0 0 0) (ChVector (- 1) 0 0) (ChVector 0 1 0) = - 1
   \<and> triad_trace (ChVector 0 0 0) (ChVector (- 1) 0 0) (ChVector 0 (- 1) 0) = - 1"
  by (simp add: triad_eval_defs sqrt_4)

lemma Normalize_eqI: "0 < k \<Longrightarrow> Length2 v = k * k \<Longrightarrow> Normalize v = Vmul v (1 / k)"
  by (simp add: Normalize_def Length_def)

lemma sqrt2_bounds: "141421356 / 100000000 < sqrt 2" "sqrt 2 < 141421357 / 100000000"
  by (rule real_less_rsqrt, simp add: power2_eq_square) (rule real_less_lsqrt, simp_all add: power2_eq_square)

lemma sqrt_2_sqrt2_bounds:
  "1847759 / 1000000 < sqrt (2 + sqrt 2)" "sqrt (2 + sqrt 2) < 1847761 / 1000000"
proof -
  show "1847759 / 1000000 < sqrt (2 + sqrt 2)"
    using sqrt2_bounds(1) by (intro real_less_rsqrt) (simp add: power2_eq_square)
  show "sqrt (2 + sqrt 2) < 1847761 / 1000000"
    using sqrt2_bounds(2) by (intro real_less_lsqrt) (simp_all add: power2_eq_square)
qed

lemma triad_plus45:
  "ChCoordsys_triad (ChVector 0 0 0) (ChVector 1 1 0) (ChVector 0 1 0)
   = \<lparr>pos = ChVector 0 0 0,
      rot = ChQuaternion (sqrt (2 + sqrt 2) / 2) 0 0 (- (sqrt 2 / (2 * sqrt (2 + sqrt 2))))\<rparr>"
proof -
  define c :: real where "c = 1 / sqrt 2"
  have cpos: "0 < c" by (simp add: c_def)
  have cc: "c * c = 1 / 2" by (simp add: c_def)
  have c2: "c + c = sqrt 2" by (simp add: c_def real_div_sqrt)
  have nx: "Normalize (Vsub (ChVector 1 1 0) (ChVector 0 0 0)) = ChVector c c 0"
    using Normalize_eqI [of "sqrt 2" "Vsub (ChVector 1 1 0) (ChVector 0 0 0)"]
    by (simp add: Vsub_def Length2_def Vdot_def Vmul_def c_def)
  have nz: "Normalize (Vcross (ChVector c c 0) (Vsub (ChVector 0 1 0) (ChVector 0 0 0)))
              = ChVector 0 0 1"
    using cpos Normalize_eqI [of c "Vcross (ChVector c c 0) (Vsub (ChVector 0 1 0) (ChVector 0 0 0))"]
    by (simp add: Vsub_def Vcross_def Length2_def Vdot_def Vmul_def)
  have ny: "Normalize (Vcross (ChVector 0 0 1) (ChVector c c 0)) = ChVector (- c) c 0"
    using cc by (simp add: Normalize_unit Vcross_def Length2_def Vdot_def)
  have tr: "0 \<le> c + (c + 1)" using cpos by simp
  have s: "1 + (c + (c + 1)) = 2 + sqrt 2" using c2 by simp
  show ?thesis
    using tr by (simp add: ChCoordsys_triad_def Let_def nx nz ny s) (simp add: c2 [symmetric])
qed

lemma triad_minus45:
  "ChCoordsys_triad (ChVector 0 0 0) (ChVector 1 (- 1) 0) (ChVector 0 1 0)
   = \<lparr>pos = ChVector 0 0 0,
      rot = ChQuaternion (sqrt (2 + sqrt 2) / 2) 0 0 (sqrt 2 / (2 * sqrt (2 + sqrt 2)))\<rparr>"
proof -
  define c :: real where "c = 1 / sqrt 2"
  have cpos: "0 < c" by (simp add: c_def)
  have cc: "c * c = 1 / 2" by (simp add: c_def)
  have c2: "c + c = sqrt 2" by (simp add: c_def real_div_sqrt)
  have nx: "Normalize (Vsub (ChVector 1 (- 1) 0) (ChVector 0 0 0)) = ChVector c (- c) 0"
    using Normalize_eqI [of "sqrt 2" "Vsub (ChVector 1 (- 1) 0) (ChVector 0 0 0)"]
    by (simp add: Vsub_def Length2_def Vdot_def Vmul_def c_def)
  have nz: "Normalize (Vcross (ChVector c (- c) 0) (Vsub (ChVector 0 1 0) (ChVector 0 0 0)))
              = ChVector 0 0 1"
    using cpos Normalize_eqI [of c "Vcross (ChVector c (- c) 0) (Vsub (ChVector 0 1 0) (ChVector 0 0 0))"]
    by (simp add: Vsub_def Vcross_def Length2_def Vdot_def Vmul_def)
  have ny: "Normalize (Vcross (ChVector 0 0 1) (ChVector c (- c) 0)) = ChVector c c 0"
    using cc by (simp add: Normalize_unit Vcross_def Length2_def Vdot_def)
  have tr: "0 \<le> c + (c + 1)" using cpos by simp
  have s: "1 + (c + (c + 1)) = 2 + sqrt 2" using c2 by simp
  show ?thesis
    using tr by (simp add: ChCoordsys_triad_def Let_def nx nz ny s) (simp add: c2 [symmetric])
qed

lemma cos_pi_8_decimal:
  "\<bar>sqrt (2 + sqrt 2) / 2 - 92388 / 100000\<bar> < 5 / 10000000"
  using sqrt_2_sqrt2_bounds by linarith

lemma sin_pi_8_decimal:
  "\<bar>sqrt 2 / (2 * sqrt (2 + sqrt 2)) - 382683 / 1000000\<bar> < 5 / 10000000"
proof -
  have p: "0 < 2 * sqrt (2 + sqrt 2)"
    using sqrt_2_sqrt2_bounds(1) by linarith
  have u: "sqrt 2 < (3826835 / 10000000) * (2 * sqrt (2 + sqrt 2))"
    using sqrt2_bounds(2) sqrt_2_sqrt2_bounds(1) by linarith
  have l: "(3826825 / 10000000) * (2 * sqrt (2 + sqrt 2)) < sqrt 2"
    using sqrt2_bounds(1) sqrt_2_sqrt2_bounds(2) by linarith
  have "sqrt 2 / (2 * sqrt (2 + sqrt 2)) < 3826835 / 10000000"
    using u p by (simp only: pos_divide_less_eq)
  moreover have "3826825 / 10000000 < sqrt 2 / (2 * sqrt (2 + sqrt 2))"
    using l p by (simp only: pos_less_divide_eq)
  ultimately show ?thesis by linarith
qed

text \<open>
  C4: with the origin \<open>(0,0,0)\<close> and \<open>ydir = (0,1,0)\<close>, the triad \<open>xdir = (1,1,0)\<close> yields a
  quaternion that agrees with \<open>(0.92388, 0, 0, -0.382683)\<close> and the triad
  \<open>xdir = (1,-1,0)\<close> one that agrees with \<open>(0.92388, 0, 0, 0.382683)\<close>, each component
  within half a unit of the sixth decimal; the two last components are opposite.
\<close>

theorem triad_45_degrees:
  "\<bar>e0 (rot (ChCoordsys_triad (ChVector 0 0 0) (ChVector 1 1 0) (ChVector 0 1 0)))
      - 92388 / 100000\<bar> < 5 / 10000000
   \<and> e1 (rot (ChCoordsys_triad (ChVector 0 0 0) (ChVector 1 1 0) (ChVector 0 1 0))) = 0
   \<and> e2 (rot (ChCoordsys_triad (ChVector 0 0 0) (ChVector 1 1 0) (ChVector 0 1 0))) = 0
   \<and> \<bar>e3 (rot (ChCoordsys_triad (ChVector 0 0 0) (ChVector 1 1 0) (ChVector 0 1 0)))
      - (- 382683 / 1000000)\<bar> < 5 / 10000000
   \<and> \<bar>e0 (rot (ChCoordsys_triad (ChVector 0 0 0) (ChVector 1 (- 1) 0) (ChVector 0 1 0)))
      - 92388 / 100000\<bar> < 5 / 10000000
   \<and> e1 (rot (ChCoordsys_triad (ChVector 0 0 0) (ChVector 1 (- 1) 0) (ChVector 0 1 0))) = 0
   \<and> e2 (rot (ChCoordsys_triad (ChVector 0 0 0) (ChVector 1 (- 1) 0) (ChVector 0 1 0))) = 0
   \<and> \<bar>e3 (rot (ChCoordsys_triad (ChVector 0 0 0) (ChVector 1 (- 1) 0) (ChVector 0 1 0)))
      - 382683 / 1000000\<bar> < 5 / 10000000
   \<and> e3 (rot (ChCoordsys_triad (ChVector 0 0 0) (ChVector 1 (- 1) 0) (ChVector 0 1 0)))
     = - e3 (rot (ChCoordsys_triad (ChVector 0 0 0) (ChVector 1 1 0) (ChVector 0 1 0)))"
proof -
  have "\<bar>- (sqrt 2 / (2 * sqrt (2 + sqrt 2))) - (- 382683 / 1000000)\<bar> < 5 / 10000000"
    using sin_pi_8_decimal by linarith
  then show ?thesis
    using cos_pi_8_decimal sin_pi_8_decimal by (simp add: triad_plus45 triad_minus45)
qed

section \<open>The branch of a nonnegative trace\<close>

text \<open>What the branch of lines 77-84 computes, in terms of the matrix \<open>R\<close>.\<close>

lemma triad_trace_nonneg_rot:
  assumes "0 \<le> triad_trace origin xdir ydir"
  shows "rot (ChCoordsys_triad origin xdir ydir)
         = ChQuaternion
             (sqrt (1 + triad_trace origin xdir ydir) * 2 / 4)
             ((triad_R origin xdir ydir ! 1 ! 2 - triad_R origin xdir ydir ! 2 ! 1)
                / (sqrt (1 + triad_trace origin xdir ydir) * 2))
             ((triad_R origin xdir ydir ! 2 ! 0 - triad_R origin xdir ydir ! 0 ! 2)
                / (sqrt (1 + triad_trace origin xdir ydir) * 2))
             ((triad_R origin xdir ydir ! 0 ! 1 - triad_R origin xdir ydir ! 1 ! 0)
                / (sqrt (1 + triad_trace origin xdir ydir) * 2))"
  using assms by (simp add: ChCoordsys_triad_def triad_R_def triad_trace_def Let_def)

text \<open>
  C3: when the trace is nonnegative, the quaternion is \<open>e0 = s/4\<close>, \<open>e1 = (R21 - R12)/s\<close>,
  \<open>e2 = (R02 - R20)/s\<close>, \<open>e3 = (R10 - R01)/s\<close> with \<open>s = 2*sqrt(1 + trace)\<close>. The source
  subtracts the other way round in the three last components. At the origin \<open>(0,0,0)\<close>
  with \<open>xdir = (7,24,0)\<close> and \<open>ydir = (0,1,0)\<close> the trace is \<open>39/25\<close>, the formula of the
  claim gives \<open>e3 = 3/5\<close>, and the constructor returns \<open>e3 = -3/5\<close>. The quaternion
  returned turns the local x axis to \<open>(7/25, -24/25, 0)\<close>, which is not the direction
  \<open>(7/25, 24/25, 0)\<close> from the origin to \<open>xdir\<close>.
\<close>

theorem triad_trace_nonneg_sign_at_7_24:
  "triad_R (ChVector 0 0 0) (ChVector 7 24 0) (ChVector 0 1 0)
     = [[7 / 25, - 24 / 25, 0], [24 / 25, 7 / 25, 0], [0, 0, 1]]
   \<and> triad_trace (ChVector 0 0 0) (ChVector 7 24 0) (ChVector 0 1 0) = 39 / 25
   \<and> rot (ChCoordsys_triad (ChVector 0 0 0) (ChVector 7 24 0) (ChVector 0 1 0))
     = ChQuaternion (4 / 5) 0 0 (- 3 / 5)
   \<and> (triad_R (ChVector 0 0 0) (ChVector 7 24 0) (ChVector 0 1 0) ! 1 ! 0
       - triad_R (ChVector 0 0 0) (ChVector 7 24 0) (ChVector 0 1 0) ! 0 ! 1)
      / (2 * sqrt (1 + triad_trace (ChVector 0 0 0) (ChVector 7 24 0) (ChVector 0 1 0)))
     = 3 / 5
   \<and> Rotate (rot (ChCoordsys_triad (ChVector 0 0 0) (ChVector 7 24 0) (ChVector 0 1 0)))
        (ChVector 1 0 0) = ChVector (7 / 25) (- 24 / 25) 0
   \<and> Normalize (Vsub (ChVector 7 24 0) (ChVector 0 0 0)) = ChVector (7 / 25) (24 / 25) 0"
  by (simp add: triad_eval_defs sqrt_625 sqrt_49_625 sqrt_64_25
      Rotate_def Qcross_def Qpure_def GetConjugate_def GetVector_def)

end
